theory Spec2Isabelle
  imports Complex_Main
begin

section \<open>Data model (types.ts)\<close>

text \<open>
  The records follow the interfaces of the type module. The field \<open>id\<close> of a poster and
  of a product is written \<open>poster_id\<close> and \<open>product_id\<close>, since \<open>id\<close> is the identity
  function of HOL. A JavaScript \<open>number\<close> is modelled as a real: the program only
  stores, compares and prints these numbers.
\<close>

datatype AspectRatio = R9_16 | R1_1 | R16_9 | R3_4 | R4_3

datatype ExpandDirection = DirAll | DirTop | DirBottom | DirLeft | DirRight

datatype ExpandSize = S25 | S50 | S100

datatype UpscaleFactor = X2 | X4

record Product =
  product_id :: string
  original :: string
  originalMimeType :: string
  processed :: "string option"
  isProcessing :: bool

record Poster =
  poster_id :: string
  src :: string
  prompt :: string

record Tint =
  color :: string
  amount :: real

record ImageFilters =
  brightness :: real
  contrast :: real
  saturate :: real
  tint :: "Tint option"

section \<open>JavaScript helpers\<close>

text \<open>A string is truthy when it is present and not empty.\<close>

fun truthy :: "string option \<Rightarrow> bool" where
  "truthy None = False"
| "truthy (Some s) = (s \<noteq> [])"

text \<open>\<open>a || b\<close> on an optional string \<open>a\<close> and a string \<open>b\<close>.\<close>

definition js_or :: "string option \<Rightarrow> string \<Rightarrow> string" where
  "js_or a b = (if truthy a then the a else b)"

text \<open>\<open>s.split(c)\<close> for a separator of one character: never the empty list.\<close>

fun split_on :: "char \<Rightarrow> string \<Rightarrow> string list" where
  "split_on c [] = ['''']"
| "split_on c (x # xs) =
     (if x = c then '''' # split_on c xs
      else (case split_on c xs of [] \<Rightarrow> [x # ''''] | w # ws \<Rightarrow> (x # w) # ws))"

text \<open>\<open>xs[i]\<close>: \<open>undefined\<close> (here \<open>None\<close>) out of range.\<close>

fun nth_opt :: "'a list \<Rightarrow> nat \<Rightarrow> 'a option" where
  "nth_opt [] i = None"
| "nth_opt (x # xs) 0 = Some x"
| "nth_opt (x # xs) (Suc i) = nth_opt xs i"

text \<open>\<open>src.split(',')[1]\<close>: the payload of a data URL.\<close>

definition base64_of :: "string \<Rightarrow> string option" where
  "base64_of s = nth_opt (split_on (CHR '','') s) 1"

text \<open>The decimal rendering of a non-negative integer inside a template literal.\<close>

definition digit_char :: "nat \<Rightarrow> char" where
  "digit_char d = ''0123456789'' ! d"

fun show_nat :: "nat \<Rightarrow> string" where
  "show_nat n = (if n < 10 then [digit_char n] else show_nat (n div 10) @ [digit_char (n mod 10)])"

declare show_nat.simps [simp del]

section \<open>The image service (services/geminiService.ts)\<close>

text \<open>
  The remote model is outside the program. One call of \<open>ai.models.generateContent\<close> is
  modelled by its outcome: the promise rejects, or it resolves to a response whose first
  candidate carries a list of parts (the empty list when a level of
  \<open>response.candidates?.[0]?.content?.parts\<close> is missing). A part is text or inline
  image data.
\<close>

datatype Part = TextPart string | InlineData string

datatype ApiOutcome = Rejects | Resolves "Part list"

text \<open>The loop \<open>for (const part of parts) if (part.inlineData) return part.inlineData.data\<close>.\<close>

fun first_inline :: "Part list \<Rightarrow> string option" where
  "first_inline [] = None"
| "first_inline (InlineData d # ps) = Some d"
| "first_inline (TextPart t # ps) = first_inline ps"

text \<open>
  A service function returns \<open>Inr\<close> of its result or \<open>Inl\<close> of the message of the
  \<open>Error\<close> it throws. In \<open>generatePoster\<close> the inner \<open>throw\<close> for a response with no
  image is caught by the function's own \<open>catch\<close>, which throws the outer message.
\<close>

definition generatePoster :: "ApiOutcome \<Rightarrow> string + string" where
  "generatePoster api =
     (case api of
        Rejects \<Rightarrow> Inl ''Failed to generate the poster.''
      | Resolves parts \<Rightarrow>
          (case first_inline parts of
             Some d \<Rightarrow> Inr d
           | None \<Rightarrow> Inl ''Failed to generate the poster.''))"

text \<open>
  \<open>generateVariation\<close> inside \<open>refinePoster\<close>: a response with no image gives \<open>null\<close>,
  a rejected call rejects (\<open>Inl ()\<close>).
\<close>

definition generateVariation :: "ApiOutcome \<Rightarrow> unit + string option" where
  "generateVariation api =
     (case api of
        Rejects \<Rightarrow> Inl ()
      | Resolves parts \<Rightarrow> Inr (first_inline parts))"

text \<open>
  \<open>refinePoster\<close> awaits \<open>Promise.all\<close> of two variations: a rejection of either one
  rejects the whole and lands in the \<open>catch\<close>. Otherwise the \<open>null\<close> results are filtered
  out, and an empty result throws (caught by the same \<open>catch\<close>).
\<close>

definition refinePoster :: "ApiOutcome \<Rightarrow> ApiOutcome \<Rightarrow> string + string list" where
  "refinePoster api1 api2 =
     (case (generateVariation api1, generateVariation api2) of
        (Inr variation1, Inr variation2) \<Rightarrow>
          (let results = List.map_filter (\<lambda>v. v) [variation1, variation2]
           in if length results = 0 then Inl ''Failed to refine the poster.''
              else Inr results)
      | _ \<Rightarrow> Inl ''Failed to refine the poster.'')"

text \<open>\<open>performImageModification\<close> rethrows whatever it caught.\<close>

definition performImageModification :: "ApiOutcome \<Rightarrow> string option + string" where
  "performImageModification api =
     (case api of
        Rejects \<Rightarrow> Inl None
      | Resolves parts \<Rightarrow>
          (case first_inline parts of
             Some d \<Rightarrow> Inr d
           | None \<Rightarrow> Inl (Some ''No modified image was generated.'')))"

definition scale_num :: "UpscaleFactor \<Rightarrow> nat" where
  "scale_num f = (case f of X2 \<Rightarrow> 2 | X4 \<Rightarrow> 4)"

definition upscalePoster :: "UpscaleFactor \<Rightarrow> ApiOutcome \<Rightarrow> string + string" where
  "upscalePoster scale api =
     (case performImageModification api of
        Inr d \<Rightarrow> Inr d
      | Inl e \<Rightarrow> Inl (''Failed to upscale the poster '' @ show_nat (scale_num scale) @ ''x.''))"

definition expandPoster :: "ApiOutcome \<Rightarrow> string + string" where
  "expandPoster api =
     (case performImageModification api of
        Inr d \<Rightarrow> Inr d
      | Inl e \<Rightarrow> Inl ''Failed to expand the poster.'')"

text \<open>The requests that reach the service, with the image payload and the user's parameters.\<close>

datatype Request =
    GeneratePosterReq "(string option \<times> string) list" string AspectRatio "(string \<times> string) option" string
  | RefineVariationReq "string option" string
  | UpscaleReq "string option" UpscaleFactor
  | ExpandReq "string option" ExpandDirection ExpandSize

section \<open>Application state (App.tsx)\<close>

text \<open>
  The state of the \<open>App\<close> component, one field for each \<open>useState\<close> that the poster
  workflow reads or writes. The upload queue and the product crop dialog belong to the
  product intake and are left out: the workflow only reads \<open>products\<close>. The field
  \<open>src\<close> of the two dialogs is written \<open>modal_src\<close>.
\<close>

record Loading =
  generating :: bool
  modifying :: bool

record Modal =
  isOpen :: bool
  modal_src :: "string option"

record AppState =
  products :: "Product list"
  posters :: "Poster list"
  activePosterId :: "string option"
  aspectRatio :: AspectRatio
  isLoading :: Loading
  error :: "string option"
  refinementVariations :: "Poster list"
  pendingFilters :: ImageFilters
  previewModal :: Modal
  posterCropModal :: Modal

definition DEFAULT_FILTERS :: ImageFilters where
  "DEFAULT_FILTERS = \<lparr>brightness = 100, contrast = 100, saturate = 100, tint = None\<rparr>"

definition initial_state :: AppState where
  "initial_state =
     \<lparr>products = [], posters = [], activePosterId = None, aspectRatio = R9_16,
      isLoading = \<lparr>generating = False, modifying = False\<rparr>, error = None,
      refinementVariations = [], pendingFilters = DEFAULT_FILTERS,
      previewModal = \<lparr>isOpen = False, modal_src = None\<rparr>,
      posterCropModal = \<lparr>isOpen = False, modal_src = None\<rparr>\<rparr>"

text \<open>
  The updater \<open>prev => [newPoster, ...prev.slice(0, 1)]\<close>, written out in each of the
  five handlers that add a poster.
\<close>

definition push_poster :: "Poster \<Rightarrow> Poster list \<Rightarrow> Poster list" where
  "push_poster newPoster prev = newPoster # take 1 prev"

text \<open>\<open>posters.find(p => p.id === activePosterId)\<close>; no id equals \<open>null\<close>.\<close>

definition find_active :: "AppState \<Rightarrow> Poster option" where
  "find_active s = find (\<lambda>p. Some (poster_id p) = activePosterId s) (posters s)"

text \<open>
  The poster on display:
  \<open>posters.find(p => p.id === activePosterId) || posters[0] || null\<close>.
\<close>

definition activePoster :: "AppState \<Rightarrow> Poster option" where
  "activePoster s =
     (case find_active s of
        Some p \<Rightarrow> Some p
      | None \<Rightarrow> nth_opt (posters s) 0)"

section \<open>Handlers (App.tsx)\<close>

text \<open>
  An asynchronous handler is modelled as one function from the state in which it is
  called to the state after its last update, with the outcome of each awaited call and
  each reading of the clock as arguments; no other event is taken between the call and
  its completion. The handlers that may call the image service also return the list of
  requests they sent.
\<close>

text \<open>
  The reference image of \<open>handleGenerate\<close>: no file, a file that
  \<open>getBase64AndMimeType\<close> reads (payload and MIME type), or a file whose reading
  rejects with the reader's error event, which has no \<open>message\<close>.
\<close>

datatype RefFile = NoFile | Readable string string | Unreadable

definition handleGenerate ::
  "string \<Rightarrow> RefFile \<Rightarrow> string \<Rightarrow> nat \<Rightarrow> ApiOutcome \<Rightarrow> AppState \<Rightarrow> AppState \<times> Request list" where
  "handleGenerate concept referenceImageFile posterText now api s =
     (let processedProducts = filter (\<lambda>p. truthy (processed p)) (products s) in
      if length processedProducts = 0
      then (s\<lparr>error := Some ''Please upload and process at least one product image.''\<rparr>, [])
      else
        let s1 = s\<lparr>isLoading := \<lparr>generating = True, modifying = False\<rparr>, error := None\<rparr>;
            done = \<lparr>generating = False, modifying = False\<rparr>
        in (case referenceImageFile of
              Unreadable \<Rightarrow>
                (s1\<lparr>error := Some (js_or None ''Failed to generate poster. Please try again.''),
                    isLoading := done\<rparr>, [])
            | _ \<Rightarrow>
                let referenceImage =
                      (case referenceImageFile of Readable b m \<Rightarrow> Some (b, m) | _ \<Rightarrow> None);
                    productData =
                      map (\<lambda>p. (base64_of (the (processed p)), ''image/png'')) processedProducts;
                    request =
                      GeneratePosterReq productData concept (aspectRatio s) referenceImage posterText
                in (case generatePoster api of
                      Inl message \<Rightarrow>
                        (s1\<lparr>error := Some (js_or (Some message)
                                              ''Failed to generate poster. Please try again.''),
                            isLoading := done\<rparr>, [request])
                    | Inr posterBase64 \<Rightarrow>
                        let newPoster =
                              \<lparr>poster_id = ''poster-'' @ show_nat now,
                               src = ''data:image/jpeg;base64,'' @ posterBase64,
                               prompt = concept\<rparr>;
                            s2 = s1\<lparr>posters := push_poster newPoster (posters s1),
                                    activePosterId := Some (poster_id newPoster)\<rparr>;
                            s3 = (if isOpen (previewModal s)
                                  then s2\<lparr>previewModal :=
                                            \<lparr>isOpen = True, modal_src = Some (src newPoster)\<rparr>\<rparr>
                                  else s2)
                        in (s3\<lparr>isLoading := done\<rparr>, [request]))))"

text \<open>
  \<open>handleRefine\<close>. The clock is read once for each variation, inside the \<open>map\<close>:
  \<open>now0\<close> is the reading taken for index 0 and \<open>now1\<close> the one for index 1
  (\<open>refinePoster\<close> returns at most two results).
\<close>

definition variation_poster :: "string \<Rightarrow> nat \<Rightarrow> nat \<Rightarrow> nat \<times> string \<Rightarrow> Poster" where
  "variation_poster refinementPrompt now0 now1 ib =
     \<lparr>poster_id = ''poster-variation-'' @ show_nat (if fst ib = 0 then now0 else now1)
                   @ ''-'' @ show_nat (fst ib),
      src = ''data:image/jpeg;base64,'' @ snd ib,
      prompt = refinementPrompt\<rparr>"

definition handleRefine ::
  "string \<Rightarrow> nat \<Rightarrow> nat \<Rightarrow> ApiOutcome \<Rightarrow> ApiOutcome \<Rightarrow> AppState \<Rightarrow> AppState \<times> Request list" where
  "handleRefine refinementPrompt now0 now1 api1 api2 s =
     (case find_active s of
        None \<Rightarrow> (s, [])
      | Some activePoster' \<Rightarrow>
          let s1 = s\<lparr>isLoading := (isLoading s)\<lparr>modifying := True\<rparr>, error := None,
                     refinementVariations := []\<rparr>;
              currentPosterBase64 = base64_of (src activePoster');
              request = RefineVariationReq currentPosterBase64 refinementPrompt;
              requests = [request, request]
          in (case refinePoster api1 api2 of
                Inl message \<Rightarrow>
                  (s1\<lparr>error := Some (js_or (Some message)
                                        ''Failed to refine poster. Please try again.''),
                      isLoading := (isLoading s1)\<lparr>modifying := False\<rparr>\<rparr>, requests)
              | Inr refinedPosterBase64s \<Rightarrow>
                  let newPosters =
                        map (variation_poster refinementPrompt now0 now1)
                            (enumerate 0 refinedPosterBase64s)
                  in (s1\<lparr>refinementVariations := newPosters,
                         isLoading := (isLoading s1)\<lparr>modifying := False\<rparr>\<rparr>, requests)))"

text \<open>
  \<open>handleImageModification\<close>: the first argument is the outcome of awaiting
  \<open>modificationFn()\<close>.
\<close>

definition handleImageModification :: "string + string \<Rightarrow> string \<Rightarrow> nat \<Rightarrow> AppState \<Rightarrow> AppState" where
  "handleImageModification outcome prompt' now s =
     (let s1 = s\<lparr>isLoading := (isLoading s)\<lparr>modifying := True\<rparr>, error := None\<rparr>
      in (case outcome of
            Inr newBase64 \<Rightarrow>
              let newPoster =
                    \<lparr>poster_id = ''poster-'' @ show_nat now,
                     src = ''data:image/jpeg;base64,'' @ newBase64,
                     prompt = prompt'\<rparr>
              in s1\<lparr>posters := push_poster newPoster (posters s1),
                    activePosterId := Some (poster_id newPoster),
                    isLoading := (isLoading s1)\<lparr>modifying := False\<rparr>\<rparr>
          | Inl message \<Rightarrow>
              s1\<lparr>error := Some (js_or (Some message)
                                   ''An error occurred during image modification.''),
                 isLoading := (isLoading s1)\<lparr>modifying := False\<rparr>\<rparr>))"

definition handleUpscale ::
  "UpscaleFactor \<Rightarrow> nat \<Rightarrow> ApiOutcome \<Rightarrow> AppState \<Rightarrow> AppState \<times> Request list" where
  "handleUpscale scale now api s =
     (case find_active s of
        None \<Rightarrow> (s, [])
      | Some activePoster' \<Rightarrow>
          let base64 = base64_of (src activePoster')
          in (handleImageModification (upscalePoster scale api)
                (''Upscaled '' @ show_nat (scale_num scale) @ ''x'') now s,
              [UpscaleReq base64 scale]))"

definition direction_name :: "ExpandDirection \<Rightarrow> string" where
  "direction_name d =
     (case d of DirAll \<Rightarrow> ''all'' | DirTop \<Rightarrow> ''top'' | DirBottom \<Rightarrow> ''bottom''
      | DirLeft \<Rightarrow> ''left'' | DirRight \<Rightarrow> ''right'')"

definition size_num :: "ExpandSize \<Rightarrow> nat" where
  "size_num z = (case z of S25 \<Rightarrow> 25 | S50 \<Rightarrow> 50 | S100 \<Rightarrow> 100)"

definition handleExpand ::
  "ExpandDirection \<Rightarrow> ExpandSize \<Rightarrow> nat \<Rightarrow> ApiOutcome \<Rightarrow> AppState \<Rightarrow> AppState \<times> Request list" where
  "handleExpand direction size' now api s =
     (case find_active s of
        None \<Rightarrow> (s, [])
      | Some activePoster' \<Rightarrow>
          let base64 = base64_of (src activePoster')
          in (handleImageModification (expandPoster api)
                (''Expanded image ('' @ direction_name direction @ '' ''
                   @ show_nat (size_num size') @ ''%)'') now s,
              [ExpandReq base64 direction size']))"

text \<open>
  \<open>handleApplyFilters\<close> draws on a canvas. The drawing is recorded as the list of
  canvas operations; the encoder \<open>toDataURL\<close> of the browser is an argument.
  \<open>loaded\<close> says that the image's \<open>onload\<close> fires and that the canvas has a 2d context;
  otherwise nothing happens.
\<close>

datatype CanvasOp =
    SetFilter real real real
  | DrawImage string
  | FillColor string real

definition canvas_ops :: "string \<Rightarrow> ImageFilters \<Rightarrow> CanvasOp list" where
  "canvas_ops img f =
     [SetFilter (brightness f) (contrast f) (saturate f), DrawImage img] @
     (case tint f of
        Some t \<Rightarrow> (if amount t > 0 then [FillColor (color t) (amount t)] else [])
      | None \<Rightarrow> [])"

definition handleApplyFilters ::
  "bool \<Rightarrow> (CanvasOp list \<Rightarrow> string) \<Rightarrow> nat \<Rightarrow> AppState \<Rightarrow> AppState" where
  "handleApplyFilters loaded toDataURL now s =
     (case find_active s of
        None \<Rightarrow> s
      | Some activePoster' \<Rightarrow>
          if \<not> loaded then s
          else
            let newSrc = toDataURL (canvas_ops (src activePoster') (pendingFilters s));
                newPoster =
                  \<lparr>poster_id = ''poster-'' @ show_nat now,
                   src = newSrc,
                   prompt = ''Applied image adjustments''\<rparr>
            in s\<lparr>posters := push_poster newPoster (posters s),
                  activePosterId := Some (poster_id newPoster),
                  pendingFilters := DEFAULT_FILTERS\<rparr>)"

definition handleConfirmRefinement :: "Poster \<Rightarrow> AppState \<Rightarrow> AppState" where
  "handleConfirmRefinement poster s =
     s\<lparr>posters := push_poster poster (posters s),
       activePosterId := Some (poster_id poster),
       refinementVariations := []\<rparr>"

definition handleCancelRefinement :: "AppState \<Rightarrow> AppState" where
  "handleCancelRefinement s = s\<lparr>refinementVariations := []\<rparr>"

definition handlePreview :: "AppState \<Rightarrow> AppState" where
  "handlePreview s =
     (case find_active s of
        Some activePoster' \<Rightarrow>
          s\<lparr>previewModal := \<lparr>isOpen = True, modal_src = Some (src activePoster')\<rparr>\<rparr>
      | None \<Rightarrow> s)"

definition handleOpenPosterCropModal :: "AppState \<Rightarrow> AppState" where
  "handleOpenPosterCropModal s =
     (case find_active s of
        Some activePoster' \<Rightarrow>
          s\<lparr>posterCropModal := \<lparr>isOpen = True, modal_src = Some (src activePoster')\<rparr>\<rparr>
      | None \<Rightarrow> s)"

definition handleClosePosterCropModal :: "AppState \<Rightarrow> AppState" where
  "handleClosePosterCropModal s =
     s\<lparr>posterCropModal := \<lparr>isOpen = False, modal_src = None\<rparr>\<rparr>"

definition handleApplyPosterCrop :: "string \<Rightarrow> nat \<Rightarrow> AppState \<Rightarrow> AppState" where
  "handleApplyPosterCrop croppedImageSrc now s =
     (let newPoster =
            \<lparr>poster_id = ''poster-'' @ show_nat now,
             src = croppedImageSrc,
             prompt = ''Cropped image''\<rparr>
      in handleClosePosterCropModal
           (s\<lparr>posters := push_poster newPoster (posters s),
              activePosterId := Some (poster_id newPoster)\<rparr>))"

definition handleProductRemove :: "string \<Rightarrow> AppState \<Rightarrow> AppState" where
  "handleProductRemove i s = s\<lparr>products := filter (\<lambda>p. product_id p \<noteq> i) (products s)\<rparr>"

text \<open>The state setters that the components receive as callbacks.\<close>

definition setActivePosterId :: "string \<Rightarrow> AppState \<Rightarrow> AppState" where
  "setActivePosterId i s = s\<lparr>activePosterId := Some i\<rparr>"

definition setPendingFilters :: "ImageFilters \<Rightarrow> AppState \<Rightarrow> AppState" where
  "setPendingFilters f s = s\<lparr>pendingFilters := f\<rparr>"

definition setAspectRatio :: "AspectRatio \<Rightarrow> AppState \<Rightarrow> AppState" where
  "setAspectRatio r s = s\<lparr>aspectRatio := r\<rparr>"

definition setError :: "string option \<Rightarrow> AppState \<Rightarrow> AppState" where
  "setError e s = s\<lparr>error := e\<rparr>"

definition closePreview :: "AppState \<Rightarrow> AppState" where
  "closePreview s = s\<lparr>previewModal := \<lparr>isOpen = False, modal_src = None\<rparr>\<rparr>"

section \<open>Components that call the handlers\<close>

text \<open>
  \<open>PosterGallery\<close> receives \<open>posters.slice(0, 2)\<close> and shows one tile for
  \<open>posters[0]\<close> and one for \<open>posters[1]\<close>, each only when the entry exists. A click on
  a tile calls \<open>onSelect\<close>, which is \<open>setActivePosterId\<close>, with the id of its entry.
\<close>

datatype Tile = Current | Previous

definition tile_index :: "Tile \<Rightarrow> nat" where
  "tile_index t = (case t of Current \<Rightarrow> 0 | Previous \<Rightarrow> 1)"

definition gallery_click :: "Tile \<Rightarrow> AppState \<Rightarrow> AppState" where
  "gallery_click t s =
     (case nth_opt (take 2 (posters s)) (tile_index t) of
        Some p \<Rightarrow> setActivePosterId (poster_id p) s
      | None \<Rightarrow> s)"

text \<open>
  \<open>PosterDisplay.handleConfirm\<close> looks the selected variation up in
  \<open>refinementVariations\<close> and confirms it when it is there; the selection is local
  state of the component and an argument here. \<open>PosterDisplay.handleCancel\<close> calls
  \<open>onCancelRefinement\<close>.
\<close>

definition handleConfirm :: "string option \<Rightarrow> AppState \<Rightarrow> AppState" where
  "handleConfirm selectedVariationId s =
     (case find (\<lambda>p. Some (poster_id p) = selectedVariationId) (refinementVariations s) of
        Some selected \<Rightarrow> handleConfirmRefinement selected s
      | None \<Rightarrow> s)"


section \<open>Events and runs\<close>

text \<open>
  The effect \<open>useEffect(() => setPendingFilters(DEFAULT_FILTERS), [activePosterId])\<close>
  runs after every update in which \<open>activePosterId\<close> has changed.
\<close>

definition reset_filters_effect :: "AppState \<Rightarrow> AppState \<Rightarrow> AppState" where
  "reset_filters_effect before after =
     (if activePosterId after \<noteq> activePosterId before
      then setPendingFilters DEFAULT_FILTERS after
      else after)"

text \<open>
  One event is one call of a handler or setter, with the arguments of the call and the
  outcomes of what it awaits. \<open>SetProducts\<close> stands for any update of the product list
  by the product intake and \<open>IntakeError\<close> for the message it shows when the background
  of a product cannot be removed.
\<close>

datatype Event =
    Generate string RefFile string nat ApiOutcome
  | Refine string nat nat ApiOutcome ApiOutcome
  | Upscale UpscaleFactor nat ApiOutcome
  | Expand ExpandDirection ExpandSize nat ApiOutcome
  | ApplyFilters bool "CanvasOp list \<Rightarrow> string" nat
  | ConfirmRefinement Poster
  | Confirm "string option"
  | CancelRefinement
  | ApplyPosterCrop string nat
  | OpenPosterCrop
  | ClosePosterCrop
  | Preview
  | ClosePreview
  | GalleryClick Tile
  | FilterChange ImageFilters
  | ResetFilters
  | AspectRatioChange AspectRatio
  | DismissError
  | ProductRemove string
  | SetProducts "Product list"
  | IntakeError string

fun handle :: "Event \<Rightarrow> AppState \<Rightarrow> AppState" where
  "handle (Generate concept file text' now api) s = fst (handleGenerate concept file text' now api s)"
| "handle (Refine p now0 now1 api1 api2) s = fst (handleRefine p now0 now1 api1 api2 s)"
| "handle (Upscale scale now api) s = fst (handleUpscale scale now api s)"
| "handle (Expand d z now api) s = fst (handleExpand d z now api s)"
| "handle (ApplyFilters loaded toDataURL now) s = handleApplyFilters loaded toDataURL now s"
| "handle (ConfirmRefinement p) s = handleConfirmRefinement p s"
| "handle (Confirm sel) s = handleConfirm sel s"
| "handle CancelRefinement s = handleCancelRefinement s"
| "handle (ApplyPosterCrop c now) s = handleApplyPosterCrop c now s"
| "handle OpenPosterCrop s = handleOpenPosterCropModal s"
| "handle ClosePosterCrop s = handleClosePosterCropModal s"
| "handle Preview s = handlePreview s"
| "handle ClosePreview s = closePreview s"
| "handle (GalleryClick t) s = gallery_click t s"
| "handle (FilterChange f) s = setPendingFilters f s"
| "handle ResetFilters s = setPendingFilters DEFAULT_FILTERS s"
| "handle (AspectRatioChange r) s = setAspectRatio r s"
| "handle DismissError s = setError None s"
| "handle (ProductRemove i) s = handleProductRemove i s"
| "handle (SetProducts ps) s = s\<lparr>products := ps\<rparr>"
| "handle (IntakeError m) s = setError (Some m) s"

definition step :: "Event \<Rightarrow> AppState \<Rightarrow> AppState" where
  "step e s = reset_filters_effect s (handle e s)"

fun run :: "Event list \<Rightarrow> AppState \<Rightarrow> AppState" where
  "run [] s = s"
| "run (e # es) s = run es (step e s)"

section \<open>Predicates on transitions and states\<close>

text \<open>
  What one event can do to the history and the active id: leave both as they are, add
  a poster (which becomes the active one), or select an entry of the history.
\<close>

definition same_view :: "AppState \<Rightarrow> AppState \<Rightarrow> bool" where
  "same_view s s' = (posters s' = posters s \<and> activePosterId s' = activePosterId s)"

definition pushed :: "Poster \<Rightarrow> AppState \<Rightarrow> AppState \<Rightarrow> bool" where
  "pushed p s s' = (posters s' = push_poster p (posters s) \<and> activePosterId s' = Some (poster_id p))"

definition selected :: "AppState \<Rightarrow> AppState \<Rightarrow> bool" where
  "selected s s' = (posters s' = posters s \<and> activePosterId s' \<in> Some ` poster_id ` set (posters s))"

text \<open>
  The active id is unset while the history is empty and names an entry of the history
  otherwise.
\<close>

definition view_ok :: "AppState \<Rightarrow> bool" where
  "view_ok s = (if posters s = [] then activePosterId s = None else find_active s \<noteq> None)"

section \<open>Example states\<close>

text \<open>
  A state with one processed product and the history \<open>[v2, v1]\<close>, \<open>v2\<close> active.
\<close>

definition poster_v1 :: Poster where
  "poster_v1 = \<lparr>poster_id = ''poster-1'', src = ''data:image/jpeg;base64,QUFB'', prompt = ''neon sign''\<rparr>"

definition poster_v2 :: Poster where
  "poster_v2 = \<lparr>poster_id = ''poster-2'', src = ''data:image/jpeg;base64,QkJC'', prompt = ''Upscaled 2x''\<rparr>"

definition product_ready :: Product where
  "product_ready =
     \<lparr>product_id = ''mug.png-1'', original = ''data:image/jpeg;base64,TVVH'',
      originalMimeType = ''image/jpeg'', processed = Some ''data:image/png;base64,TVVH'',
      isProcessing = False\<rparr>"

definition viewing_state :: AppState where
  "viewing_state =
     initial_state\<lparr>products := [product_ready], posters := [poster_v2, poster_v1],
                   activePosterId := Some ''poster-2''\<rparr>"

text \<open>
  The same state while two candidates of a refinement are shown, with the previous
  version selected in the gallery, and with an active id that no entry of the history
  has.
\<close>

definition choosing_state :: AppState where
  "choosing_state =
     viewing_state\<lparr>refinementVariations :=
       [\<lparr>poster_id = ''poster-variation-5-0'', src = ''data:image/jpeg;base64,VjA='',
         prompt = ''warmer light''\<rparr>,
        \<lparr>poster_id = ''poster-variation-5-1'', src = ''data:image/jpeg;base64,VjE='',
         prompt = ''warmer light''\<rparr>]\<rparr>"

definition previous_selected_state :: AppState where
  "previous_selected_state = viewing_state\<lparr>activePosterId := Some ''poster-1''\<rparr>"

definition dangling_state :: AppState where
  "dangling_state = viewing_state\<lparr>activePosterId := Some ''poster-0''\<rparr>"

text \<open>
  The same state with pending adjustments, and with products none of which has a
  processed image (one still in processing, one with an empty string).
\<close>

definition adjusting_state :: AppState where
  "adjusting_state =
     viewing_state\<lparr>pendingFilters :=
       \<lparr>brightness = 120, contrast = 100, saturate = 100,
        tint = Some \<lparr>color = ''#ff8800'', amount = 1 / 4\<rparr>\<rparr>\<rparr>"

definition unprocessed_state :: AppState where
  "unprocessed_state =
     viewing_state\<lparr>products :=
       [\<lparr>product_id = ''cup.png-2'', original = ''data:image/jpeg;base64,Q1VQ'',
         originalMimeType = ''image/jpeg'', processed = None, isProcessing = True\<rparr>,
        \<lparr>product_id = ''jar.png-3'', original = ''data:image/jpeg;base64,SkFS'',
         originalMimeType = ''image/jpeg'', processed = Some [], isProcessing = False\<rparr>]\<rparr>"

text \<open>
  The same state with a pending tint of amount 0, and an encoder of the canvas that
  tells the two drawings of the examples from each other and from any other drawing.
\<close>

definition zero_tint_state :: AppState where
  "zero_tint_state =
     viewing_state\<lparr>pendingFilters :=
       \<lparr>brightness = 80, contrast = 110, saturate = 90,
        tint = Some \<lparr>color = ''#0044ff'', amount = 0\<rparr>\<rparr>\<rparr>"

definition example_encoder :: "CanvasOp list \<Rightarrow> string" where
  "example_encoder ops =
     (if ops = [SetFilter 120 100 100, DrawImage ''data:image/jpeg;base64,QkJC'',
                FillColor ''#ff8800'' (1 / 4)]
      then ''data:image/jpeg;base64,VElOVA==''
      else if ops = [SetFilter 80 110 90, DrawImage ''data:image/jpeg;base64,QkJC'']
      then ''data:image/jpeg;base64,UExBSU4=''
      else ''data:image/jpeg;base64,T1RIRVI='')"

section \<open>Facts about the service and the handlers\<close>

lemma length_push_poster: "length (push_poster p h) \<le> 2"
  by (simp add: push_poster_def)

lemma push_poster_take: "push_poster p h = take 2 (p # h)"
  by (simp add: push_poster_def numeral_2_eq_2)

lemma foldl_push: "ps \<noteq> [] \<Longrightarrow> foldl (\<lambda>h p. push_poster p h) h ps = take 2 (rev ps @ h)"
proof (induction ps rule: rev_induct)
  case Nil then show ?case by simp
next
  case (snoc p ps)
  show ?case
  proof (cases "ps = []")
    case True then show ?thesis by (simp add: push_poster_take)
  next
    case False
    then have "foldl (\<lambda>h p. push_poster p h) h ps = take 2 (rev ps @ h)" by (rule snoc.IH)
    then have "foldl (\<lambda>h p. push_poster p h) h (ps @ [p]) = push_poster p (take 2 (rev ps @ h))"
      by simp
    also have "\<dots> = p # take 1 (rev ps @ h)"
      unfolding push_poster_def by (simp only: take_take) simp
    also have "\<dots> = take 2 (rev (ps @ [p]) @ h)"
      by (simp add: numeral_2_eq_2)
    finally show ?thesis .
  qed
qed

lemma foldl_push_empty: "foldl (\<lambda>h p. push_poster p h) [] ps = take 2 (rev ps)"
  by (cases "ps = []") (simp_all add: foldl_push)

lemma generatePoster_Inl: "generatePoster api = Inl m \<Longrightarrow> m = ''Failed to generate the poster.''"
  by (auto simp: generatePoster_def split: ApiOutcome.splits option.splits)

lemma refinePoster_Inl: "refinePoster a1 a2 = Inl m \<Longrightarrow> m = ''Failed to refine the poster.''"
  by (auto simp: refinePoster_def Let_def split: sum.splits if_splits)



lemma handleGenerate_no_product:
  "filter (\<lambda>p. truthy (processed p)) (products s) = [] \<Longrightarrow>
   handleGenerate c f t now api s =
     (s\<lparr>error := Some ''Please upload and process at least one product image.''\<rparr>, [])"
  by (simp add: handleGenerate_def)

lemma handleGenerate_unreadable:
  "filter (\<lambda>p. truthy (processed p)) (products s) \<noteq> [] \<Longrightarrow>
   handleGenerate c Unreadable t now api s =
     (s\<lparr>isLoading := \<lparr>generating = False, modifying = False\<rparr>,
        error := Some ''Failed to generate poster. Please try again.''\<rparr>, [])"
  by (simp add: handleGenerate_def Let_def js_or_def)

lemma handleGenerate_failure:
  "filter (\<lambda>p. truthy (processed p)) (products s) \<noteq> [] \<Longrightarrow> f \<noteq> Unreadable \<Longrightarrow>
   generatePoster api = Inl m \<Longrightarrow>
   fst (handleGenerate c f t now api s) =
     s\<lparr>isLoading := \<lparr>generating = False, modifying = False\<rparr>,
        error := Some ''Failed to generate the poster.''\<rparr>
   \<and> length (snd (handleGenerate c f t now api s)) = 1"
  by (frule generatePoster_Inl) (cases f; simp add: handleGenerate_def Let_def js_or_def)

lemma handleGenerate_success:
  "filter (\<lambda>p. truthy (processed p)) (products s) \<noteq> [] \<Longrightarrow> f \<noteq> Unreadable \<Longrightarrow>
   generatePoster api = Inr b \<Longrightarrow>
   posters (fst (handleGenerate c f t now api s)) =
     push_poster \<lparr>poster_id = ''poster-'' @ show_nat now,
                  src = ''data:image/jpeg;base64,'' @ b, prompt = c\<rparr> (posters s)
   \<and> activePosterId (fst (handleGenerate c f t now api s)) = Some (''poster-'' @ show_nat now)
   \<and> refinementVariations (fst (handleGenerate c f t now api s)) = refinementVariations s
   \<and> pendingFilters (fst (handleGenerate c f t now api s)) = pendingFilters s
   \<and> length (snd (handleGenerate c f t now api s)) = 1"
  by (cases f; simp add: handleGenerate_def Let_def)

lemma find_active_member:
  "find_active s = Some p \<Longrightarrow> p \<in> set (posters s) \<and> Some (poster_id p) = activePosterId s"
  unfolding find_active_def by (auto simp: find_Some_iff)

lemma find_active_None:
  "find_active s = None \<longleftrightarrow> (\<forall>p \<in> set (posters s). Some (poster_id p) \<noteq> activePosterId s)"
  unfolding find_active_def by (auto simp: find_None_iff)


lemma handleRefine_failure:
  "find_active s = Some a \<Longrightarrow> refinePoster a1 a2 = Inl m \<Longrightarrow>
   fst (handleRefine p n0 n1 a1 a2 s) =
     s\<lparr>isLoading := (isLoading s)\<lparr>modifying := False\<rparr>,
        error := Some ''Failed to refine the poster.'', refinementVariations := []\<rparr>
   \<and> length (snd (handleRefine p n0 n1 a1 a2 s)) = 2"
  by (frule refinePoster_Inl) (simp add: handleRefine_def Let_def js_or_def)

lemma handleRefine_success:
  "find_active s = Some a \<Longrightarrow> refinePoster a1 a2 = Inr bs \<Longrightarrow>
   fst (handleRefine p n0 n1 a1 a2 s) =
     s\<lparr>isLoading := (isLoading s)\<lparr>modifying := False\<rparr>, error := None,
        refinementVariations := map (variation_poster p n0 n1) (enumerate 0 bs)\<rparr>
   \<and> length (snd (handleRefine p n0 n1 a1 a2 s)) = 2"
  by (simp add: handleRefine_def Let_def)

lemma handleRefine_frame:
  "posters (fst (handleRefine p n0 n1 a1 a2 s)) = posters s \<and>
   activePosterId (fst (handleRefine p n0 n1 a1 a2 s)) = activePosterId s \<and>
   pendingFilters (fst (handleRefine p n0 n1 a1 a2 s)) = pendingFilters s"
  by (simp add: handleRefine_def Let_def split: option.splits sum.splits)

lemma handleImageModification_success:
  "handleImageModification (Inr b) pr now s =
     s\<lparr>isLoading := (isLoading s)\<lparr>modifying := False\<rparr>, error := None,
        posters := push_poster \<lparr>poster_id = ''poster-'' @ show_nat now,
                     src = ''data:image/jpeg;base64,'' @ b, prompt = pr\<rparr> (posters s),
        activePosterId := Some (''poster-'' @ show_nat now)\<rparr>"
  by (simp add: handleImageModification_def Let_def)


lemma handleUpscale_inactive: "find_active s = None \<Longrightarrow> handleUpscale k now api s = (s, [])"
  by (simp add: handleUpscale_def)

lemma handleExpand_inactive: "find_active s = None \<Longrightarrow> handleExpand d z now api s = (s, [])"
  by (simp add: handleExpand_def)

lemma handleUpscale_active:
  "find_active s = Some a \<Longrightarrow>
   handleUpscale k now api s =
     (handleImageModification (upscalePoster k api)
        (''Upscaled '' @ show_nat (scale_num k) @ ''x'') now s,
      [UpscaleReq (base64_of (src a)) k])"
  by (simp add: handleUpscale_def Let_def)

lemma handleExpand_active:
  "find_active s = Some a \<Longrightarrow>
   handleExpand d z now api s =
     (handleImageModification (expandPoster api)
        (''Expanded image ('' @ direction_name d @ '' '' @ show_nat (size_num z) @ ''%)'') now s,
      [ExpandReq (base64_of (src a)) d z])"
  by (simp add: handleExpand_def Let_def)

lemma handleApplyFilters_success:
  "find_active s = Some a \<Longrightarrow>
   handleApplyFilters True enc now s =
     s\<lparr>posters := push_poster \<lparr>poster_id = ''poster-'' @ show_nat now,
                     src = enc (canvas_ops (src a) (pendingFilters s)),
                     prompt = ''Applied image adjustments''\<rparr> (posters s),
        activePosterId := Some (''poster-'' @ show_nat now),
        pendingFilters := DEFAULT_FILTERS\<rparr>"
  by (simp add: handleApplyFilters_def Let_def)

lemma handleApplyFilters_nothing:
  "find_active s = None \<or> \<not> loaded \<Longrightarrow> handleApplyFilters loaded enc now s = s"
  by (auto simp: handleApplyFilters_def split: option.splits)

lemma handleImageModification_cases:
  "same_view s (handleImageModification r pr now s) \<or> (\<exists>p. pushed p s (handleImageModification r pr now s))"
  by (cases r) (auto simp: handleImageModification_def Let_def same_view_def pushed_def)

lemma nth_opt_member: "nth_opt xs i = Some x \<Longrightarrow> x \<in> set xs"
  by (induction xs i rule: nth_opt.induct) auto

lemma gallery_click_cases: "same_view s (gallery_click t s) \<or> selected s (gallery_click t s)"
  by (auto simp: gallery_click_def setActivePosterId_def same_view_def selected_def
        split: option.splits dest!: nth_opt_member in_set_takeD)

lemma handle_cases:
  "same_view s (handle e s) \<or> (\<exists>p. pushed p s (handle e s)) \<or> selected s (handle e s)"
proof (cases e)
  case (Generate c f t now api)
  show ?thesis
  proof (cases "filter (\<lambda>p. truthy (processed p)) (products s) = []")
    case True then show ?thesis using Generate
      by (simp add: handleGenerate_no_product same_view_def)
  next
    case np: False
    show ?thesis
    proof (cases "f = Unreadable")
      case True then show ?thesis using Generate np
        by (simp add: handleGenerate_unreadable same_view_def)
    next
      case False
      show ?thesis
      proof (cases "generatePoster api")
        case (Inl m)
        from handleGenerate_failure[OF np False Inl] show ?thesis using Generate
          by (simp add: same_view_def)
      next
        case (Inr b)
        from handleGenerate_success[OF np False Inr] show ?thesis using Generate
          by (auto simp: pushed_def)
      qed
    qed
  qed
next
  case (Refine p n0 n1 a1 a2)
  then show ?thesis using handleRefine_frame[of p n0 n1 a1 a2 s] by (simp add: same_view_def)
next
  case (Upscale k now api)
  then show ?thesis using handleImageModification_cases
    by (cases "find_active s") (auto simp: handleUpscale_inactive handleUpscale_active same_view_def)
next
  case (Expand d z now api)
  then show ?thesis using handleImageModification_cases
    by (cases "find_active s") (auto simp: handleExpand_inactive handleExpand_active same_view_def)
next
  case (ApplyFilters loaded enc now)
  then show ?thesis
    by (cases "find_active s"; cases loaded)
       (auto simp: handleApplyFilters_nothing handleApplyFilters_success same_view_def pushed_def)
next
  case (ConfirmRefinement p)
  then show ?thesis by (auto simp: handleConfirmRefinement_def pushed_def)
next
  case (Confirm sel)
  then show ?thesis
    by (auto simp: handleConfirm_def handleConfirmRefinement_def pushed_def same_view_def split: option.splits)
next
  case (ApplyPosterCrop c now)
  then show ?thesis by (auto simp: handleApplyPosterCrop_def handleClosePosterCropModal_def Let_def pushed_def)
next
  case (GalleryClick t)
  then show ?thesis using gallery_click_cases[of s t] by auto
qed (simp_all add: same_view_def handleCancelRefinement_def handleOpenPosterCropModal_def
      handleClosePosterCropModal_def handlePreview_def closePreview_def setPendingFilters_def
      setAspectRatio_def setError_def handleProductRemove_def split: option.splits)

section \<open>Facts about steps and runs\<close>

lemma step_posters: "posters (step e s) = posters (handle e s)"
  by (simp add: step_def reset_filters_effect_def setPendingFilters_def)

lemma step_activePosterId: "activePosterId (step e s) = activePosterId (handle e s)"
  by (simp add: step_def reset_filters_effect_def setPendingFilters_def)

lemma step_refinementVariations: "refinementVariations (step e s) = refinementVariations (handle e s)"
  by (simp add: step_def reset_filters_effect_def setPendingFilters_def)

lemma step_find_active: "find_active (step e s) = find_active (handle e s)"
  by (simp add: find_active_def step_posters step_activePosterId)

lemma step_activePoster: "activePoster (step e s) = activePoster (handle e s)"
  unfolding activePoster_def step_find_active step_posters ..


lemma step_Refine:
  "step (Refine p n0 n1 a1 a2) s = fst (handleRefine p n0 n1 a1 a2 s)"
  using handleRefine_frame[of p n0 n1 a1 a2 s]
  by (simp add: step_def reset_filters_effect_def)

lemma step_cases:
  "same_view s (step e s) \<or> (\<exists>p. pushed p s (step e s)) \<or> selected s (step e s)"
  using handle_cases[of s e]
  by (simp add: same_view_def pushed_def selected_def step_posters step_activePosterId)

lemma step_length: "length (posters s) \<le> 2 \<Longrightarrow> length (posters (step e s)) \<le> 2"
  using step_cases[of s e] by (auto simp: same_view_def pushed_def selected_def push_poster_def)

lemma run_length: "length (posters s) \<le> 2 \<Longrightarrow> length (posters (run es s)) \<le> 2"
  by (induction es arbitrary: s) (simp_all add: step_length)

lemma step_view_ok: "view_ok s \<Longrightarrow> view_ok (step e s)"
  using step_cases[of s e]
  by (auto simp: view_ok_def same_view_def pushed_def selected_def push_poster_def find_active_def find_None_iff
         split: if_splits)

lemma run_view_ok: "view_ok s \<Longrightarrow> view_ok (run es s)"
  by (induction es arbitrary: s) (simp_all add: step_view_ok)

lemma view_ok_initial: "view_ok initial_state"
  by (simp add: view_ok_def initial_state_def)

section \<open>Facts about the example states\<close>

lemma find_active_viewing: "find_active viewing_state = Some poster_v2"
  by (simp add: find_active_def viewing_state_def initial_state_def poster_v2_def poster_v1_def)

lemma posters_examples:
  "posters viewing_state = [poster_v2, poster_v1]"
  "posters previous_selected_state = [poster_v2, poster_v1]"
  "posters dangling_state = [poster_v2, poster_v1]"
  by (simp_all add: viewing_state_def previous_selected_state_def dangling_state_def)

lemma active_examples:
  "activePosterId viewing_state = Some ''poster-2''"
  "activePosterId previous_selected_state = Some ''poster-1''"
  "activePosterId dangling_state = Some ''poster-0''"
  by (simp_all add: viewing_state_def previous_selected_state_def dangling_state_def)

lemma find_active_examples:
  "find_active previous_selected_state = Some poster_v1"
  "find_active dangling_state = None"
  by (simp_all add: find_active_def posters_examples active_examples poster_v1_def poster_v2_def)

section \<open>The claims\<close>

subsection \<open>C1: the history keeps the newest two versions\<close>

text \<open>
  Claim C1. For every sequence of pushes the history never has more than two entries,
  each push puts the new version at position 0, and what lies beyond the newest two
  entries is dropped: the history after pushing \<open>ps\<close> onto the empty history is the
  last two of \<open>ps\<close>, newest first, and after pushing a non-empty \<open>ps\<close> onto any
  history \<open>h\<close> it is the first two entries of the pushed versions, newest first,
  with \<open>h\<close> appended; along every run of events from the initial state the history has
  at most two entries; and each of the six operations that add a version (generate,
  confirm of a refinement, upscale, expand, apply of the filters, crop), when it
  succeeds, leaves the new version followed by the entry that was first.
\<close>

theorem history_keeps_newest_two:
  "foldl (\<lambda>h p. push_poster p h) [] ps = take 2 (rev ps)
   \<and> (ps \<noteq> [] \<longrightarrow> foldl (\<lambda>h p. push_poster p h) h ps = take 2 (rev ps @ h))
   \<and> length (posters (run es initial_state)) \<le> 2
   \<and> (filter (\<lambda>p. truthy (processed p)) (products s) \<noteq> [] \<and> f \<noteq> Unreadable
        \<and> generatePoster api = Inr b \<longrightarrow>
      posters (step (Generate c f t now api) s) =
        \<lparr>poster_id = ''poster-'' @ show_nat now, src = ''data:image/jpeg;base64,'' @ b,
         prompt = c\<rparr> # take 1 (posters s))
   \<and> posters (step (ConfirmRefinement v) s) = v # take 1 (posters s)
   \<and> (find_active s = Some a \<and> upscalePoster k api = Inr b \<longrightarrow>
      posters (step (Upscale k now api) s) =
        \<lparr>poster_id = ''poster-'' @ show_nat now, src = ''data:image/jpeg;base64,'' @ b,
         prompt = ''Upscaled '' @ show_nat (scale_num k) @ ''x''\<rparr> # take 1 (posters s))
   \<and> (find_active s = Some a \<and> expandPoster api = Inr b \<longrightarrow>
      posters (step (Expand d z now api) s) =
        \<lparr>poster_id = ''poster-'' @ show_nat now, src = ''data:image/jpeg;base64,'' @ b,
         prompt = ''Expanded image ('' @ direction_name d @ '' '' @ show_nat (size_num z) @ ''%)''\<rparr>
        # take 1 (posters s))
   \<and> (find_active s = Some a \<longrightarrow>
      posters (step (ApplyFilters True enc now) s) =
        \<lparr>poster_id = ''poster-'' @ show_nat now,
         src = enc (canvas_ops (src a) (pendingFilters s)),
         prompt = ''Applied image adjustments''\<rparr> # take 1 (posters s))
   \<and> posters (step (ApplyPosterCrop cropped now) s) =
        \<lparr>poster_id = ''poster-'' @ show_nat now, src = cropped, prompt = ''Cropped image''\<rparr>
        # take 1 (posters s)"
proof -
  have bound: "length (posters (run es initial_state)) \<le> 2"
    by (rule run_length) (simp add: initial_state_def)
  have gen: "posters (step (Generate c f t now api) s) =
        \<lparr>poster_id = ''poster-'' @ show_nat now, src = ''data:image/jpeg;base64,'' @ b,
         prompt = c\<rparr> # take 1 (posters s)"
    if "filter (\<lambda>p. truthy (processed p)) (products s) \<noteq> []" "f \<noteq> Unreadable"
       "generatePoster api = Inr b"
    using handleGenerate_success[OF that] by (simp add: step_posters push_poster_def)
  have conf: "posters (step (ConfirmRefinement v) s) = v # take 1 (posters s)"
    by (simp add: step_posters handleConfirmRefinement_def push_poster_def)
  have up: "posters (step (Upscale k now api) s) =
        \<lparr>poster_id = ''poster-'' @ show_nat now, src = ''data:image/jpeg;base64,'' @ b,
         prompt = ''Upscaled '' @ show_nat (scale_num k) @ ''x''\<rparr> # take 1 (posters s)"
    if "find_active s = Some a" "upscalePoster k api = Inr b"
    using that by (simp add: step_posters handleUpscale_active handleImageModification_success push_poster_def)
  have ex: "posters (step (Expand d z now api) s) =
        \<lparr>poster_id = ''poster-'' @ show_nat now, src = ''data:image/jpeg;base64,'' @ b,
         prompt = ''Expanded image ('' @ direction_name d @ '' '' @ show_nat (size_num z) @ ''%)''\<rparr>
        # take 1 (posters s)"
    if "find_active s = Some a" "expandPoster api = Inr b"
    using that by (simp add: step_posters handleExpand_active handleImageModification_success push_poster_def)
  have ap: "posters (step (ApplyFilters True enc now) s) =
        \<lparr>poster_id = ''poster-'' @ show_nat now,
         src = enc (canvas_ops (src a) (pendingFilters s)),
         prompt = ''Applied image adjustments''\<rparr> # take 1 (posters s)"
    if "find_active s = Some a"
    using that by (simp add: step_posters handleApplyFilters_success push_poster_def)
  have crop: "posters (step (ApplyPosterCrop cropped now) s) =
        \<lparr>poster_id = ''poster-'' @ show_nat now, src = cropped, prompt = ''Cropped image''\<rparr>
        # take 1 (posters s)"
    by (simp add: step_posters handleApplyPosterCrop_def handleClosePosterCropModal_def Let_def push_poster_def)
  from foldl_push_empty foldl_push bound gen conf up ex ap crop show ?thesis by blast
qed

theorem history_keeps_newest_two_witness:
  "foldl (\<lambda>h p. push_poster p h) [poster_v2, poster_v1] [poster_v1] = [poster_v1, poster_v2]
   \<and> find_active viewing_state = Some poster_v2
   \<and> generatePoster (Resolves [TextPart ''ok'', InlineData ''Q0ND'']) = Inr ''Q0ND''
   \<and> upscalePoster X2 (Resolves [TextPart ''ok'', InlineData ''Q0ND'']) = Inr ''Q0ND''
   \<and> expandPoster (Resolves [TextPart ''ok'', InlineData ''Q0ND'']) = Inr ''Q0ND''
   \<and> length (posters (run [SetProducts [product_ready],
                              Generate ''neon sign'' NoFile [] 1 (Resolves [InlineData ''QUFB'']),
                              Upscale X2 2 (Resolves [InlineData ''QkJC'']),
                              ApplyPosterCrop ''data:image/jpeg;base64,Q1JP'' 3]
                         initial_state)) \<le> 2
   \<and> posters (step (Generate ''neon sign'' NoFile [] 3 (Resolves [TextPart ''ok'', InlineData ''Q0ND'']))
                viewing_state) =
       [\<lparr>poster_id = ''poster-3'', src = ''data:image/jpeg;base64,Q0ND'', prompt = ''neon sign''\<rparr>,
        poster_v2]
   \<and> posters (step (Upscale X2 3 (Resolves [TextPart ''ok'', InlineData ''Q0ND''])) viewing_state) =
       [\<lparr>poster_id = ''poster-3'', src = ''data:image/jpeg;base64,Q0ND'', prompt = ''Upscaled 2x''\<rparr>,
        poster_v2]
   \<and> posters (step (Expand DirTop S50 3 (Resolves [TextPart ''ok'', InlineData ''Q0ND''])) viewing_state) =
       [\<lparr>poster_id = ''poster-3'', src = ''data:image/jpeg;base64,Q0ND'',
         prompt = ''Expanded image (top 50%)''\<rparr>, poster_v2]
   \<and> posters (step (ApplyFilters True (\<lambda>ops. ''data:image/jpeg;base64,RkZG'') 3) viewing_state) =
       [\<lparr>poster_id = ''poster-3'', src = ''data:image/jpeg;base64,RkZG'',
         prompt = ''Applied image adjustments''\<rparr>, poster_v2]
   \<and> posters (step (ApplyPosterCrop ''data:image/jpeg;base64,Q1JP'' 3) viewing_state) =
       [\<lparr>poster_id = ''poster-3'', src = ''data:image/jpeg;base64,Q1JP'', prompt = ''Cropped image''\<rparr>,
        poster_v2]
   \<and> posters (step (ConfirmRefinement poster_v1) viewing_state) = [poster_v1, poster_v2]"
proof -
  have fa: "find_active viewing_state = Some poster_v2"
    by (simp add: find_active_def viewing_state_def initial_state_def poster_v2_def poster_v1_def)
  have pr: "filter (\<lambda>p. truthy (processed p)) (products viewing_state) \<noteq> []"
    by (simp add: viewing_state_def initial_state_def product_ready_def)
  have g: "generatePoster (Resolves [TextPart ''ok'', InlineData ''Q0ND'']) = Inr ''Q0ND''"
    by (simp add: generatePoster_def)
  have u: "upscalePoster X2 (Resolves [TextPart ''ok'', InlineData ''Q0ND'']) = Inr ''Q0ND''"
    by (simp add: upscalePoster_def performImageModification_def)
  have e: "expandPoster (Resolves [TextPart ''ok'', InlineData ''Q0ND'']) = Inr ''Q0ND''"
    by (simp add: expandPoster_def performImageModification_def)
  have ps: "posters viewing_state = [poster_v2, poster_v1]"
    by (simp add: viewing_state_def initial_state_def)
  have n: "show_nat 3 = ''3''" "show_nat (scale_num X2) = ''2''" "show_nat (size_num S50) = ''50''"
    by (simp_all add: show_nat.simps digit_char_def scale_num_def size_num_def)
  show ?thesis
    using history_keeps_newest_two[where s = viewing_state and f = NoFile
        and api = "Resolves [TextPart ''ok'', InlineData ''Q0ND'']" and b = "''Q0ND''" and c = "''neon sign''"
        and t = "[]" and now = 3 and a = poster_v2 and k = X2 and d = DirTop and z = S50
        and enc = "\<lambda>ops. ''data:image/jpeg;base64,RkZG''" and cropped = "''data:image/jpeg;base64,Q1JP''"
        and v = poster_v1 and ps = "[poster_v1]" and h = "[poster_v2, poster_v1]"
        and es = "[SetProducts [product_ready],
                   Generate ''neon sign'' NoFile [] 1 (Resolves [InlineData ''QUFB'']),
                   Upscale X2 2 (Resolves [InlineData ''QkJC'']),
                   ApplyPosterCrop ''data:image/jpeg;base64,Q1JP'' 3]"]
    by (simp add: fa pr g u e ps n direction_name_def)
qed

subsection \<open>C2: partial success of a refinement\<close>

lemma refinePoster_Inr:
  "refinePoster api1 api2 = Inr imgs \<longleftrightarrow>
     (\<exists>ps1 ps2. api1 = Resolves ps1 \<and> api2 = Resolves ps2
        \<and> imgs = List.map_filter (\<lambda>v. v) [first_inline ps1, first_inline ps2] \<and> imgs \<noteq> [])"
  by (cases api1; cases api2) (auto simp: refinePoster_def generateVariation_def Let_def)

lemma refinePoster_Rejects:
  "api1 = Rejects \<or> api2 = Rejects \<Longrightarrow> refinePoster api1 api2 = Inl ''Failed to refine the poster.''"
  by (cases api1; cases api2) (auto simp: refinePoster_def generateVariation_def Let_def)

text \<open>
  Claim C2, amended. \<open>refinePoster\<close> sends two variation requests, both in every
  case. It succeeds exactly when both calls return a response and at least one response
  carries an image; its result is the images of the responses, in the order of the
  requests, and a response with no image is dropped. When both calls return and exactly
  one response has no image, the controller shows exactly one candidate and no error.
  When either call is rejected the whole refinement fails: no candidate is shown and
  the error message is set, also when the other call has returned an image.
\<close>

theorem refine_partial_success:
  "(refinePoster api1 api2 = Inr imgs \<longleftrightarrow>
     (\<exists>ps1 ps2. api1 = Resolves ps1 \<and> api2 = Resolves ps2
        \<and> imgs = List.map_filter (\<lambda>v. v) [first_inline ps1, first_inline ps2] \<and> imgs \<noteq> []))
   \<and> (find_active s = Some a \<and> api1 = Resolves ps1 \<and> api2 = Resolves ps2
        \<and> (first_inline ps1 = None) \<noteq> (first_inline ps2 = None) \<longrightarrow>
      length (refinementVariations (step (Refine p n0 n1 api1 api2) s)) = 1
      \<and> error (step (Refine p n0 n1 api1 api2) s) = None)
   \<and> (find_active s = Some a \<and> (api1 = Rejects \<or> api2 = Rejects) \<longrightarrow>
      refinementVariations (step (Refine p n0 n1 api1 api2) s) = []
      \<and> error (step (Refine p n0 n1 api1 api2) s) = Some ''Failed to refine the poster.'')
   \<and> (find_active s = Some a \<longrightarrow> length (snd (handleRefine p n0 n1 api1 api2 s)) = 2)"
proof -
  have one: "length (refinementVariations (step (Refine p n0 n1 api1 api2) s)) = 1
      \<and> error (step (Refine p n0 n1 api1 api2) s) = None"
    if a: "find_active s = Some a" and r: "api1 = Resolves ps1" "api2 = Resolves ps2"
      and x: "(first_inline ps1 = None) \<noteq> (first_inline ps2 = None)"
  proof -
    have "\<exists>img. refinePoster api1 api2 = Inr [img]"
      using x unfolding r
      by (cases "first_inline ps1"; cases "first_inline ps2")
         (simp_all add: refinePoster_def generateVariation_def Let_def List.map_filter_simps)
    then obtain img where "refinePoster api1 api2 = Inr [img]" ..
    from handleRefine_success[OF a this] show ?thesis by (simp add: step_Refine)
  qed
  have rej: "refinementVariations (step (Refine p n0 n1 api1 api2) s) = []
      \<and> error (step (Refine p n0 n1 api1 api2) s) = Some ''Failed to refine the poster.''"
    if a: "find_active s = Some a" and r: "api1 = Rejects \<or> api2 = Rejects"
    using handleRefine_failure[OF a refinePoster_Rejects[OF r]] by (simp add: step_Refine)
  have c1: "refinePoster api1 api2 = Inr imgs \<longleftrightarrow>
     (\<exists>ps1 ps2. api1 = Resolves ps1 \<and> api2 = Resolves ps2
        \<and> imgs = List.map_filter (\<lambda>v. v) [first_inline ps1, first_inline ps2] \<and> imgs \<noteq> [])"
    by (rule refinePoster_Inr)
  have c2: "find_active s = Some a \<and> api1 = Resolves ps1 \<and> api2 = Resolves ps2
        \<and> (first_inline ps1 = None) \<noteq> (first_inline ps2 = None) \<longrightarrow>
      length (refinementVariations (step (Refine p n0 n1 api1 api2) s)) = 1
      \<and> error (step (Refine p n0 n1 api1 api2) s) = None"
    using one by (intro impI) (elim conjE)
  have c3: "find_active s = Some a \<and> (api1 = Rejects \<or> api2 = Rejects) \<longrightarrow>
      refinementVariations (step (Refine p n0 n1 api1 api2) s) = []
      \<and> error (step (Refine p n0 n1 api1 api2) s) = Some ''Failed to refine the poster.''"
    using rej by (intro impI) (elim conjE)
  have c4: "find_active s = Some a \<longrightarrow> length (snd (handleRefine p n0 n1 api1 api2 s)) = 2"
  proof
    assume a: "find_active s = Some a"
    show "length (snd (handleRefine p n0 n1 api1 api2 s)) = 2"
    proof (cases "refinePoster api1 api2")
      case (Inl m)
      from handleRefine_failure[OF a Inl] show ?thesis by simp
    next
      case (Inr bs)
      from handleRefine_success[OF a Inr] show ?thesis by simp
    qed
  qed
  from c1 c2 c3 c4 show ?thesis by (intro conjI)
qed

theorem refine_partial_success_witness:
  "find_active viewing_state = Some poster_v2
   \<and> refinePoster (Resolves [TextPart ''no image'']) (Resolves [InlineData ''Q0ND'']) = Inr [''Q0ND'']
   \<and> length (refinementVariations
        (step (Refine ''warmer light'' 5 5 (Resolves [TextPart ''no image'']) (Resolves [InlineData ''Q0ND'']))
           viewing_state)) = 1
   \<and> error (step (Refine ''warmer light'' 5 5 (Resolves [TextPart ''no image'']) (Resolves [InlineData ''Q0ND'']))
           viewing_state) = None
   \<and> refinementVariations
        (step (Refine ''warmer light'' 5 5 (Resolves [InlineData ''Q0ND'']) Rejects) viewing_state) = []
   \<and> error (step (Refine ''warmer light'' 5 5 (Resolves [InlineData ''Q0ND'']) Rejects) viewing_state)
        = Some ''Failed to refine the poster.''
   \<and> length (snd (handleRefine ''warmer light'' 5 5 (Resolves [InlineData ''Q0ND'']) Rejects viewing_state)) = 2"
  using
    refine_partial_success[where s = viewing_state and a = poster_v2
      and ?api1.0 = "Resolves [TextPart ''no image'']" and ?api2.0 = "Resolves [InlineData ''Q0ND'']"
      and ?ps1.0 = "[TextPart ''no image'']" and ?ps2.0 = "[InlineData ''Q0ND'']"
      and imgs = "[''Q0ND'']" and p = "''warmer light''" and ?n0.0 = 5 and ?n1.0 = 5]
    refine_partial_success[where s = viewing_state and a = poster_v2
      and ?api1.0 = "Resolves [InlineData ''Q0ND'']" and ?api2.0 = Rejects
      and p = "''warmer light''" and ?n0.0 = 5 and ?n1.0 = 5]
  by (simp add: find_active_viewing List.map_filter_simps)

theorem refine_one_rejected_counterexample:
  "refinePoster Rejects (Resolves [InlineData ''Q0ND'']) = Inl ''Failed to refine the poster.''
   \<and> find_active viewing_state = Some poster_v2
   \<and> refinementVariations
        (step (Refine ''warmer light'' 5 5 Rejects (Resolves [InlineData ''Q0ND''])) viewing_state) = []
   \<and> error (step (Refine ''warmer light'' 5 5 Rejects (Resolves [InlineData ''Q0ND''])) viewing_state)
        = Some ''Failed to refine the poster.''"
  by (simp add: step_Refine handleRefine_def find_active_viewing refinePoster_def
        generateVariation_def js_or_def Let_def)

subsection \<open>C3: confirming a candidate\<close>

lemma handleConfirmRefinement_result:
  "posters (handleConfirmRefinement v s) = v # take 1 (posters s)
   \<and> activePosterId (handleConfirmRefinement v s) = Some (poster_id v)
   \<and> refinementVariations (handleConfirmRefinement v s) = []
   \<and> activePoster (handleConfirmRefinement v s) = Some v"
  by (simp add: handleConfirmRefinement_def activePoster_def find_active_def push_poster_def)

text \<open>
  Claim C3. When the candidate set holds the candidate \<open>v\<close>, confirming \<open>v\<close> puts
  \<open>v\<close> at the front of the history, followed by the entry that was first and nothing
  else, makes \<open>v\<close> the active and the displayed poster, and leaves the candidate set
  empty. The confirm button of the display looks the selected id up in the candidate
  set and confirms the candidate it finds.
\<close>

theorem confirm_pushes_selected:
  "(v \<in> set (refinementVariations s) \<longrightarrow>
      posters (step (ConfirmRefinement v) s) = v # take 1 (posters s)
      \<and> activePosterId (step (ConfirmRefinement v) s) = Some (poster_id v)
      \<and> activePoster (step (ConfirmRefinement v) s) = Some v
      \<and> refinementVariations (step (ConfirmRefinement v) s) = [])
   \<and> (find (\<lambda>p. Some (poster_id p) = sel) (refinementVariations s) = Some v \<longrightarrow>
      v \<in> set (refinementVariations s)
      \<and> step (Confirm sel) s = step (ConfirmRefinement v) s)"
proof -
  have a: "posters (step (ConfirmRefinement v) s) = v # take 1 (posters s)
      \<and> activePosterId (step (ConfirmRefinement v) s) = Some (poster_id v)
      \<and> activePoster (step (ConfirmRefinement v) s) = Some v
      \<and> refinementVariations (step (ConfirmRefinement v) s) = []"
    using handleConfirmRefinement_result[of v s]
    by (simp add: step_posters step_activePosterId step_activePoster step_refinementVariations)
  have b: "v \<in> set (refinementVariations s) \<and> step (Confirm sel) s = step (ConfirmRefinement v) s"
    if "find (\<lambda>p. Some (poster_id p) = sel) (refinementVariations s) = Some v"
  proof
    from that show "v \<in> set (refinementVariations s)"
      by (auto simp: find_Some_iff)
    from that show "step (Confirm sel) s = step (ConfirmRefinement v) s"
      by (simp add: step_def handleConfirm_def)
  qed
  from a b show ?thesis by simp
qed

theorem confirm_pushes_selected_witness:
  "\<lparr>poster_id = ''poster-variation-5-1'', src = ''data:image/jpeg;base64,VjE='',
     prompt = ''warmer light''\<rparr> \<in> set (refinementVariations choosing_state)
   \<and> find (\<lambda>p. Some (poster_id p) = Some ''poster-variation-5-1'') (refinementVariations choosing_state)
       = Some \<lparr>poster_id = ''poster-variation-5-1'', src = ''data:image/jpeg;base64,VjE='',
                prompt = ''warmer light''\<rparr>
   \<and> posters (step (Confirm (Some ''poster-variation-5-1'')) choosing_state) =
       [\<lparr>poster_id = ''poster-variation-5-1'', src = ''data:image/jpeg;base64,VjE='',
         prompt = ''warmer light''\<rparr>, poster_v2]
   \<and> activePosterId (step (Confirm (Some ''poster-variation-5-1'')) choosing_state)
       = Some ''poster-variation-5-1''
   \<and> refinementVariations (step (Confirm (Some ''poster-variation-5-1'')) choosing_state) = []"
proof -
  have v: "refinementVariations choosing_state =
       [\<lparr>poster_id = ''poster-variation-5-0'', src = ''data:image/jpeg;base64,VjA='',
         prompt = ''warmer light''\<rparr>,
        \<lparr>poster_id = ''poster-variation-5-1'', src = ''data:image/jpeg;base64,VjE='',
         prompt = ''warmer light''\<rparr>]"
    by (simp add: choosing_state_def)
  have p: "posters choosing_state = [poster_v2, poster_v1]"
    by (simp add: choosing_state_def viewing_state_def)
  show ?thesis
    using confirm_pushes_selected[where s = choosing_state and sel = "Some ''poster-variation-5-1''"
        and v = "\<lparr>poster_id = ''poster-variation-5-1'', src = ''data:image/jpeg;base64,VjE='',
                   prompt = ''warmer light''\<rparr>"]
    by (simp add: v p)
qed

subsection \<open>C4: cancelling a refinement\<close>

text \<open>
  Claim C4. A refinement followed by cancel leaves the history and the active id as
  they were before the refinement was requested, and the candidate set is empty; in
  every state cancel itself keeps the history and the active id and empties the
  candidate set.
\<close>

theorem cancel_after_refine_restores_view:
  "posters (run [Refine p n0 n1 api1 api2, CancelRefinement] s) = posters s
   \<and> activePosterId (run [Refine p n0 n1 api1 api2, CancelRefinement] s) = activePosterId s
   \<and> refinementVariations (run [Refine p n0 n1 api1 api2, CancelRefinement] s) = []
   \<and> posters (step CancelRefinement s) = posters s
   \<and> activePosterId (step CancelRefinement s) = activePosterId s
   \<and> refinementVariations (step CancelRefinement s) = []"
proof -
  have c: "posters (step CancelRefinement t) = posters t
      \<and> activePosterId (step CancelRefinement t) = activePosterId t
      \<and> refinementVariations (step CancelRefinement t) = []" for t
    by (simp add: step_posters step_activePosterId step_refinementVariations handleCancelRefinement_def)
  have r: "posters (step (Refine p n0 n1 api1 api2) s) = posters s
      \<and> activePosterId (step (Refine p n0 n1 api1 api2) s) = activePosterId s"
    using handleRefine_frame[of p n0 n1 api1 api2 s]
    by (simp add: step_posters step_activePosterId)
  from c[of "step (Refine p n0 n1 api1 api2) s"] c[of s] r show ?thesis by simp
qed

theorem cancel_after_refine_restores_view_witness:
  "refinementVariations
     (step (Refine ''warmer light'' 5 5 (Resolves [InlineData ''VjA='']) (Resolves [InlineData ''VjE='']))
        viewing_state) = refinementVariations choosing_state
   \<and> posters (run [Refine ''warmer light'' 5 5 (Resolves [InlineData ''VjA='']) (Resolves [InlineData ''VjE='']),
                    CancelRefinement] viewing_state) = [poster_v2, poster_v1]
   \<and> activePosterId (run [Refine ''warmer light'' 5 5 (Resolves [InlineData ''VjA='']) (Resolves [InlineData ''VjE='']),
                    CancelRefinement] viewing_state) = Some ''poster-2''
   \<and> refinementVariations (run [Refine ''warmer light'' 5 5 (Resolves [InlineData ''VjA='']) (Resolves [InlineData ''VjE='']),
                    CancelRefinement] viewing_state) = []"
proof -
  have rp: "refinePoster (Resolves [InlineData ''VjA='']) (Resolves [InlineData ''VjE='']) = Inr [''VjA='', ''VjE='']"
    by (simp add: refinePoster_def generateVariation_def Let_def List.map_filter_simps)
  have n: "show_nat 5 = ''5''" "show_nat 0 = ''0''" "show_nat (Suc 0) = ''1''"
    by (simp_all add: show_nat.simps digit_char_def)
  have 1: "refinementVariations
     (step (Refine ''warmer light'' 5 5 (Resolves [InlineData ''VjA='']) (Resolves [InlineData ''VjE='']))
        viewing_state) = refinementVariations choosing_state"
    using handleRefine_success[OF find_active_viewing rp, of "''warmer light''" 5 5]
    by (simp add: step_refinementVariations choosing_state_def variation_poster_def n)
  show ?thesis
    using 1 cancel_after_refine_restores_view[where s = viewing_state and p = "''warmer light''"
        and ?n0.0 = 5 and ?n1.0 = 5 and ?api1.0 = "Resolves [InlineData ''VjA='']"
        and ?api2.0 = "Resolves [InlineData ''VjE='']"]
    by (simp add: viewing_state_def)
qed

subsection \<open>C5: a failed service call\<close>













subsection \<open>C6: the poster on display\<close>

text \<open>
  Claim C6. When an entry of the history has the active id, the displayed poster is an
  entry of the history with that id; when no entry has it, the displayed poster is the
  entry at position 0, or none for the empty history; and there is no displayed poster
  only when the history is empty.
\<close>

theorem displayed_poster_resolution:
  "((\<exists>p \<in> set (posters s). Some (poster_id p) = activePosterId s) \<longrightarrow>
      (\<exists>p. activePoster s = Some p \<and> p \<in> set (posters s) \<and> Some (poster_id p) = activePosterId s))
   \<and> ((\<forall>p \<in> set (posters s). Some (poster_id p) \<noteq> activePosterId s) \<longrightarrow>
      activePoster s = (case posters s of [] \<Rightarrow> None | p # ps \<Rightarrow> Some p))
   \<and> (activePoster s = None \<longleftrightarrow> posters s = [])"
proof (intro conjI impI)
  assume "\<exists>p \<in> set (posters s). Some (poster_id p) = activePosterId s"
  then have "find_active s \<noteq> None" by (simp add: find_active_None)
  then obtain p where p: "find_active s = Some p" by blast
  then have "activePoster s = Some p" by (simp add: activePoster_def)
  with find_active_member[OF p]
  show "\<exists>p. activePoster s = Some p \<and> p \<in> set (posters s) \<and> Some (poster_id p) = activePosterId s"
    by blast
next
  assume "\<forall>p \<in> set (posters s). Some (poster_id p) \<noteq> activePosterId s"
  then have "find_active s = None" by (simp add: find_active_None)
  then show "activePoster s = (case posters s of [] \<Rightarrow> None | p # ps \<Rightarrow> Some p)"
    by (cases "posters s") (simp_all add: activePoster_def)
next
  show "activePoster s = None \<longleftrightarrow> posters s = []"
  proof (cases "find_active s")
    case None
    then show ?thesis by (cases "posters s") (simp_all add: activePoster_def)
  next
    case (Some p)
    with find_active_member[OF Some] show ?thesis by (auto simp: activePoster_def)
  qed
qed

theorem displayed_poster_resolution_witness:
  "(\<exists>p \<in> set (posters previous_selected_state).
       Some (poster_id p) = activePosterId previous_selected_state)
   \<and> activePoster previous_selected_state = Some poster_v1
   \<and> find_active dangling_state = None
   \<and> activePoster dangling_state = Some poster_v2
   \<and> activePoster initial_state = None"
proof -
  have a: "\<exists>p \<in> set (posters previous_selected_state).
       Some (poster_id p) = activePosterId previous_selected_state"
    by (simp add: posters_examples active_examples poster_v1_def)
  have b: "\<forall>p \<in> set (posters dangling_state). Some (poster_id p) \<noteq> activePosterId dangling_state"
    by (simp add: posters_examples active_examples poster_v1_def poster_v2_def)
  have c: "posters initial_state = []" by (simp add: initial_state_def)
  from displayed_poster_resolution[of previous_selected_state] a
  have 1: "activePoster previous_selected_state = Some poster_v1"
    by (auto simp: posters_examples active_examples poster_v1_def poster_v2_def)
  from displayed_poster_resolution[of dangling_state] b
  have 2: "activePoster dangling_state = Some poster_v2"
    by (simp add: posters_examples)
  from displayed_poster_resolution[of initial_state] c
  have 3: "activePoster initial_state = None" by simp
  from a 1 2 3 find_active_examples(2) show ?thesis by simp
qed

subsection \<open>C7: selecting a version\<close>

lemma gallery_click_member:
  "gallery_click t s = s \<or> (\<exists>p \<in> set (posters s). gallery_click t s = setActivePosterId (poster_id p) s)"
  by (auto simp: gallery_click_def split: option.splits dest!: nth_opt_member in_set_takeD)

lemma view_ok_resolves: "view_ok s \<Longrightarrow> activePosterId s = None \<or> find_active s \<noteq> None"
  by (simp add: view_ok_def split: if_splits)

lemma run_reaches_viewing:
  "run [SetProducts [product_ready],
        Generate ''neon sign'' NoFile [] 1 (Resolves [InlineData ''QUFB'']),
        Upscale X2 2 (Resolves [TextPart ''done'', InlineData ''QkJC''])] initial_state = viewing_state"
proof -
  let ?s1 = "initial_state\<lparr>products := [product_ready]\<rparr>"
  let ?s2 = "?s1\<lparr>posters := [poster_v1], activePosterId := Some ''poster-1''\<rparr>"
  have n: "show_nat (Suc 0) = ''1''" "show_nat 2 = ''2''" "show_nat (scale_num X2) = ''2''"
    by (simp_all add: show_nat.simps digit_char_def scale_num_def)
  have 1: "step (SetProducts [product_ready]) initial_state = ?s1"
    by (simp add: step_def reset_filters_effect_def)
  have 2: "step (Generate ''neon sign'' NoFile [] 1 (Resolves [InlineData ''QUFB''])) ?s1 = ?s2"
    by (simp add: step_def reset_filters_effect_def handleGenerate_def generatePoster_def Let_def
          initial_state_def product_ready_def push_poster_def poster_v1_def n setPendingFilters_def)
  have f: "find_active ?s2 = Some poster_v1"
    by (simp add: find_active_def poster_v1_def)
  have u: "upscalePoster X2 (Resolves [TextPart ''done'', InlineData ''QkJC'']) = Inr ''QkJC''"
    by (simp add: upscalePoster_def performImageModification_def)
  have h: "handle (Upscale X2 2 (Resolves [TextPart ''done'', InlineData ''QkJC''])) ?s2 =
      ?s2\<lparr>isLoading := (isLoading ?s2)\<lparr>modifying := False\<rparr>, error := None,
          posters := push_poster \<lparr>poster_id = ''poster-'' @ show_nat 2,
                     src = ''data:image/jpeg;base64,'' @ ''QkJC'',
                     prompt = ''Upscaled '' @ show_nat (scale_num X2) @ ''x''\<rparr> (posters ?s2),
          activePosterId := Some (''poster-'' @ show_nat 2)\<rparr>"
    using handleUpscale_active[OF f, of X2 2 "Resolves [TextPart ''done'', InlineData ''QkJC'']"]
    unfolding u handleImageModification_success by simp
  have 3: "step (Upscale X2 2 (Resolves [TextPart ''done'', InlineData ''QkJC''])) ?s2 = viewing_state"
    unfolding step_def h
    by (simp add: reset_filters_effect_def initial_state_def push_poster_def poster_v2_def n
          setPendingFilters_def viewing_state_def)
  show ?thesis unfolding run.simps 1 2 3 ..
qed

text \<open>
  Claim C7, amended. \<open>setActivePosterId\<close> stores the id it is given, whether or not an
  entry of the history has it. The gallery calls it only with the id of an entry of the
  history, so after every run of events from the initial state the active id is unset
  or is the id of an entry of the history. For an id that no entry has, the setter
  leaves an active id that resolves to nothing and the display shows the entry at
  position 0.
\<close>

theorem active_id_resolves_on_runs:
  "setActivePosterId i s = s\<lparr>activePosterId := Some i\<rparr>
   \<and> (gallery_click t s = s
        \<or> (\<exists>p \<in> set (posters s). gallery_click t s = setActivePosterId (poster_id p) s))
   \<and> (activePosterId (run es initial_state) = None \<or> find_active (run es initial_state) \<noteq> None)
   \<and> (i \<notin> poster_id ` set (posters s) \<longrightarrow>
        activePoster (setActivePosterId i s) = (case posters s of [] \<Rightarrow> None | p # ps \<Rightarrow> Some p))"
proof -
  have "view_ok (run es initial_state)" by (rule run_view_ok) (rule view_ok_initial)
  then have r: "activePosterId (run es initial_state) = None \<or> find_active (run es initial_state) \<noteq> None"
    by (rule view_ok_resolves)
  have d: "activePoster (setActivePosterId i s) = (case posters s of [] \<Rightarrow> None | p # ps \<Rightarrow> Some p)"
    if "i \<notin> poster_id ` set (posters s)"
  proof -
    have "find_active (setActivePosterId i s) = None"
      using that by (auto simp: find_active_None setActivePosterId_def)
    then show ?thesis
      by (cases "posters s") (simp_all add: activePoster_def setActivePosterId_def)
  qed
  from r d gallery_click_member[of t s] show ?thesis by (simp add: setActivePosterId_def)
qed

theorem active_id_resolves_on_runs_witness:
  "run [SetProducts [product_ready],
        Generate ''neon sign'' NoFile [] 1 (Resolves [InlineData ''QUFB'']),
        Upscale X2 2 (Resolves [TextPart ''done'', InlineData ''QkJC''])] initial_state = viewing_state
   \<and> find_active viewing_state = Some poster_v2
   \<and> gallery_click Previous viewing_state = setActivePosterId ''poster-1'' viewing_state
   \<and> ''poster-0'' \<notin> poster_id ` set (posters viewing_state)
   \<and> activePoster (setActivePosterId ''poster-0'' viewing_state) = Some poster_v2"
proof -
  have g: "gallery_click Previous viewing_state = setActivePosterId ''poster-1'' viewing_state"
    by (simp add: gallery_click_def tile_index_def posters_examples poster_v1_def)
  have m: "''poster-0'' \<notin> poster_id ` set (posters viewing_state)"
    by (simp add: posters_examples poster_v1_def poster_v2_def)
  note T = active_id_resolves_on_runs[where s = viewing_state and i = "''poster-0''" and t = Previous
        and es = "[SetProducts [product_ready],
          Generate ''neon sign'' NoFile [] 1 (Resolves [InlineData ''QUFB'']),
          Upscale X2 2 (Resolves [TextPart ''done'', InlineData ''QkJC''])]"]
  from T have "''poster-0'' \<notin> poster_id ` set (posters viewing_state) \<longrightarrow>
        activePoster (setActivePosterId ''poster-0'' viewing_state)
          = (case posters viewing_state of [] \<Rightarrow> None | p # ps \<Rightarrow> Some p)"
    by (elim conjE)
  with m have "activePoster (setActivePosterId ''poster-0'' viewing_state)
          = (case posters viewing_state of [] \<Rightarrow> None | p # ps \<Rightarrow> Some p)"
    by (rule_tac mp)
  then have a: "activePoster (setActivePosterId ''poster-0'' viewing_state) = Some poster_v2"
    by (simp add: posters_examples)
  from run_reaches_viewing find_active_viewing g m a show ?thesis by (intro conjI)
qed

theorem setActive_absent_id_counterexample:
  "''poster-0'' \<notin> poster_id ` set (posters previous_selected_state)
   \<and> activePoster previous_selected_state = Some poster_v1
   \<and> activePosterId (setActivePosterId ''poster-0'' previous_selected_state) = Some ''poster-0''
   \<and> find_active (setActivePosterId ''poster-0'' previous_selected_state) = None
   \<and> activePoster (setActivePosterId ''poster-0'' previous_selected_state) = Some poster_v2"
  by (simp add: setActivePosterId_def activePoster_def find_active_def posters_examples
        active_examples poster_v1_def poster_v2_def)

subsection \<open>C8: the pending adjustment\<close>

lemma step_changed_active:
  "activePosterId (step e s) \<noteq> activePosterId s \<Longrightarrow> pendingFilters (step e s) = DEFAULT_FILTERS"
  by (simp add: step_def reset_filters_effect_def setPendingFilters_def split: if_splits)

lemma step_ApplyFilters_success:
  assumes "find_active s = Some a"
  shows "step (ApplyFilters True enc now) s =
     s\<lparr>posters := push_poster \<lparr>poster_id = ''poster-'' @ show_nat now,
                     src = enc (canvas_ops (src a) (pendingFilters s)),
                     prompt = ''Applied image adjustments''\<rparr> (posters s),
        activePosterId := Some (''poster-'' @ show_nat now),
        pendingFilters := DEFAULT_FILTERS\<rparr>"
  unfolding step_def handle.simps handleApplyFilters_success[OF assms]
  by (simp add: reset_filters_effect_def setPendingFilters_def)

text \<open>
  Claim C8. The baseline of the pending adjustment is brightness 100, contrast 100,
  saturation 100 and no tint. Every event that changes the active id leaves the pending
  adjustment at the baseline, whatever it was before. A successful apply of the filters
  adds one version, makes it the active one and leaves the pending adjustment at the
  baseline. The image of the new version is the encoding of the canvas with the
  adjustment in it: the filter is set to the pending brightness, contrast and
  saturation, the active image is drawn, and a pending tint with an amount above 0 is
  filled over the image in its colour with that amount.
\<close>

theorem pending_filters_reset:
  "DEFAULT_FILTERS = \<lparr>brightness = 100, contrast = 100, saturate = 100, tint = None\<rparr>
   \<and> (activePosterId (step e s) \<noteq> activePosterId s \<longrightarrow>
        pendingFilters (step e s) = DEFAULT_FILTERS)
   \<and> (find_active s = Some a \<longrightarrow>
        pendingFilters (step (ApplyFilters True enc now) s) = DEFAULT_FILTERS
        \<and> posters (step (ApplyFilters True enc now) s) =
            \<lparr>poster_id = ''poster-'' @ show_nat now,
             src = enc ([SetFilter (brightness (pendingFilters s)) (contrast (pendingFilters s))
                           (saturate (pendingFilters s)),
                         DrawImage (src a)]
                        @ (case tint (pendingFilters s) of
                             None \<Rightarrow> []
                           | Some t \<Rightarrow> if 0 < amount t then [FillColor (color t) (amount t)] else [])),
             prompt = ''Applied image adjustments''\<rparr> # take 1 (posters s)
        \<and> activePosterId (step (ApplyFilters True enc now) s) = Some (''poster-'' @ show_nat now))"
proof (intro conjI impI)
  show "DEFAULT_FILTERS = \<lparr>brightness = 100, contrast = 100, saturate = 100, tint = None\<rparr>"
    by (rule DEFAULT_FILTERS_def)
  show "pendingFilters (step e s) = DEFAULT_FILTERS"
    if "activePosterId (step e s) \<noteq> activePosterId s"
    using that by (rule step_changed_active)
next
  assume a: "find_active s = Some a"
  have o: "canvas_ops (src a) (pendingFilters s) =
      [SetFilter (brightness (pendingFilters s)) (contrast (pendingFilters s))
         (saturate (pendingFilters s)), DrawImage (src a)]
      @ (case tint (pendingFilters s) of
           None \<Rightarrow> []
         | Some t \<Rightarrow> if 0 < amount t then [FillColor (color t) (amount t)] else [])"
    by (simp add: canvas_ops_def split: option.splits)
  show "pendingFilters (step (ApplyFilters True enc now) s) = DEFAULT_FILTERS"
    "posters (step (ApplyFilters True enc now) s) =
            \<lparr>poster_id = ''poster-'' @ show_nat now,
             src = enc ([SetFilter (brightness (pendingFilters s)) (contrast (pendingFilters s))
                           (saturate (pendingFilters s)),
                         DrawImage (src a)]
                        @ (case tint (pendingFilters s) of
                             None \<Rightarrow> []
                           | Some t \<Rightarrow> if 0 < amount t then [FillColor (color t) (amount t)] else [])),
             prompt = ''Applied image adjustments''\<rparr> # take 1 (posters s)"
    "activePosterId (step (ApplyFilters True enc now) s) = Some (''poster-'' @ show_nat now)"
    unfolding step_ApplyFilters_success[OF a] o by (simp_all add: push_poster_def)
qed

theorem pending_filters_reset_witness:
  "activePosterId (step (GalleryClick Previous) adjusting_state) \<noteq> activePosterId adjusting_state
   \<and> brightness (pendingFilters adjusting_state) = 120
   \<and> pendingFilters (step (GalleryClick Previous) adjusting_state)
        = \<lparr>brightness = 100, contrast = 100, saturate = 100, tint = None\<rparr>
   \<and> find_active adjusting_state = Some poster_v2
   \<and> pendingFilters (step (ApplyFilters True example_encoder 3) adjusting_state)
        = \<lparr>brightness = 100, contrast = 100, saturate = 100, tint = None\<rparr>
   \<and> posters (step (ApplyFilters True example_encoder 3) adjusting_state)
        = [\<lparr>poster_id = ''poster-3'', src = ''data:image/jpeg;base64,VElOVA=='',
             prompt = ''Applied image adjustments''\<rparr>, poster_v2]
   \<and> activePosterId (step (ApplyFilters True example_encoder 3) adjusting_state) = Some ''poster-3''
   \<and> find_active zero_tint_state = Some poster_v2
   \<and> posters (step (ApplyFilters True example_encoder 4) zero_tint_state)
        = [\<lparr>poster_id = ''poster-4'', src = ''data:image/jpeg;base64,UExBSU4='',
             prompt = ''Applied image adjustments''\<rparr>, poster_v2]"
proof -
  have p: "posters adjusting_state = [poster_v2, poster_v1]"
    "posters zero_tint_state = [poster_v2, poster_v1]"
    and a: "activePosterId adjusting_state = Some ''poster-2''"
    "activePosterId zero_tint_state = Some ''poster-2''"
    and b: "pendingFilters adjusting_state =
       \<lparr>brightness = 120, contrast = 100, saturate = 100,
        tint = Some \<lparr>color = ''#ff8800'', amount = 1 / 4\<rparr>\<rparr>"
    "pendingFilters zero_tint_state =
       \<lparr>brightness = 80, contrast = 110, saturate = 90,
        tint = Some \<lparr>color = ''#0044ff'', amount = 0\<rparr>\<rparr>"
    by (simp_all add: adjusting_state_def zero_tint_state_def viewing_state_def)
  have f: "find_active adjusting_state = Some poster_v2" "find_active zero_tint_state = Some poster_v2"
    by (simp_all add: find_active_def p a poster_v2_def)
  have g: "activePosterId (step (GalleryClick Previous) adjusting_state) = Some ''poster-1''"
    by (simp add: step_activePosterId gallery_click_def tile_index_def p setActivePosterId_def
          poster_v1_def)
  then have c: "activePosterId (step (GalleryClick Previous) adjusting_state)
      \<noteq> activePosterId adjusting_state"
    by (simp add: a)
  have n: "show_nat 3 = ''3''" "show_nat 4 = ''4''" by (simp_all add: show_nat.simps digit_char_def)
  have s2: "src poster_v2 = ''data:image/jpeg;base64,QkJC''" by (simp add: poster_v2_def)
  note T1 = pending_filters_reset[where s = adjusting_state and e = "GalleryClick Previous"
      and a = poster_v2 and enc = example_encoder and now = 3]
  note T2 = pending_filters_reset[where s = zero_tint_state and e = "GalleryClick Previous"
      and a = poster_v2 and enc = example_encoder and now = 4]
  from T1 T2 c f show ?thesis by (simp add: b p n s2 example_encoder_def)
qed

subsection \<open>C9: generate without a processed product\<close>

text \<open>
  Claim C9. When no product has a processed image, generate sends no request to the
  image service and only sets the validation message: the history, the active id and
  the candidate set are unchanged.
\<close>

theorem generate_without_processed_product:
  "(\<forall>p \<in> set (products s). \<not> truthy (processed p)) \<longrightarrow>
     snd (handleGenerate c f t now api s) = []
     \<and> step (Generate c f t now api) s
          = s\<lparr>error := Some ''Please upload and process at least one product image.''\<rparr>
     \<and> posters (step (Generate c f t now api) s) = posters s
     \<and> activePosterId (step (Generate c f t now api) s) = activePosterId s
     \<and> refinementVariations (step (Generate c f t now api) s) = refinementVariations s"
proof
  assume "\<forall>p \<in> set (products s). \<not> truthy (processed p)"
  then have "filter (\<lambda>p. truthy (processed p)) (products s) = []"
    by (simp add: filter_empty_conv)
  from handleGenerate_no_product[OF this]
  have h: "handleGenerate c f t now api s =
     (s\<lparr>error := Some ''Please upload and process at least one product image.''\<rparr>, [])" .
  then have st: "step (Generate c f t now api) s
          = s\<lparr>error := Some ''Please upload and process at least one product image.''\<rparr>"
    by (simp add: step_def reset_filters_effect_def)
  show "snd (handleGenerate c f t now api s) = []
     \<and> step (Generate c f t now api) s
          = s\<lparr>error := Some ''Please upload and process at least one product image.''\<rparr>
     \<and> posters (step (Generate c f t now api) s) = posters s
     \<and> activePosterId (step (Generate c f t now api) s) = activePosterId s
     \<and> refinementVariations (step (Generate c f t now api) s) = refinementVariations s"
    unfolding st by (simp add: h)
qed

theorem generate_without_processed_product_witness:
  "filter (\<lambda>p. truthy (processed p)) (products unprocessed_state) = []
   \<and> snd (handleGenerate ''neon sign'' NoFile [] 3 (Resolves [InlineData ''Q0ND'']) unprocessed_state) = []
   \<and> error (step (Generate ''neon sign'' NoFile [] 3 (Resolves [InlineData ''Q0ND''])) unprocessed_state)
        = Some ''Please upload and process at least one product image.''
   \<and> posters (step (Generate ''neon sign'' NoFile [] 3 (Resolves [InlineData ''Q0ND''])) unprocessed_state)
        = [poster_v2, poster_v1]
   \<and> activePosterId (step (Generate ''neon sign'' NoFile [] 3 (Resolves [InlineData ''Q0ND''])) unprocessed_state)
        = Some ''poster-2''"
proof -
  have u: "\<forall>p \<in> set (products unprocessed_state). \<not> truthy (processed p)"
    by (simp add: unprocessed_state_def)
  then have e: "filter (\<lambda>p. truthy (processed p)) (products unprocessed_state) = []"
    by (simp add: filter_empty_conv)
  have v: "posters unprocessed_state = [poster_v2, poster_v1]"
    "activePosterId unprocessed_state = Some ''poster-2''"
    by (simp_all add: unprocessed_state_def viewing_state_def)
  note T = generate_without_processed_product[where s = unprocessed_state and c = "''neon sign''"
      and f = NoFile and t = "[]" and now = 3 and api = "Resolves [InlineData ''Q0ND'']"]
  from T u e show ?thesis by (simp add: v)
qed

subsection \<open>C10: commands without an active poster\<close>






end
